theory Spec2Isabelle
  imports Complex_Main "HOL-Library.Sublist"
begin

section \<open>Data model\<close>

text \<open>
  Go's \<open>float64\<close>: a finite value is \<open>(-1)^sign * mant * 2^exp\<close>, kept in the
  canonical IEEE 754 binary64 form (\<open>2^52 \<le> mant < 2^53\<close> and \<open>-1074 \<le> exp \<le> 971\<close>
  for a normal number, \<open>mant < 2^52\<close> and \<open>exp = -1074\<close> for a subnormal one, \<open>mant = 0\<close>
  and \<open>exp = 0\<close> for a zero), so that equal values are equal terms.
\<close>

datatype float64 = Finite bool int int | Infinity bool | NaN

definition f64_zero :: float64 where
  "f64_zero = Finite False 0 0"

text \<open>Go's comparison \<open>val != 0\<close>: both zeros compare equal to 0, a NaN to nothing.\<close>

fun f64_ne_zero :: "float64 \<Rightarrow> bool" where
  "f64_ne_zero (Finite s m e) = (m \<noteq> 0)"
| "f64_ne_zero (Infinity s) = True"
| "f64_ne_zero NaN = True"


section \<open>The Go library: \<open>strconv.ParseFloat\<close> and \<open>fmt.Sprintf("%.4f")\<close>\<close>

text \<open>
  Strings are Go byte strings. The functions of this section model the standard library
  as its documentation and its sources describe it; the repository calls them.
\<close>

definition is_digit :: "char \<Rightarrow> bool" where
  "is_digit c = (48 \<le> (of_char c :: nat) \<and> (of_char c :: nat) \<le> 57)"

definition digit_val :: "char \<Rightarrow> int" where
  "digit_val c = of_char c - 48"

text \<open>\<open>lower(c) = c | ('x' - 'X')\<close>: bit 5 is set.\<close>

definition lower :: "char \<Rightarrow> char" where
  "lower c = (let n = (of_char c :: nat) in if (n div 32) mod 2 = 0 then char_of (n + 32) else c)"

definition is_hex_letter :: "char \<Rightarrow> bool" where
  "is_hex_letter c = (97 \<le> (of_char (lower c) :: nat) \<and> (of_char (lower c) :: nat) \<le> 102)"

function bitlen :: "int \<Rightarrow> int" where
  "bitlen n = (if n \<le> 0 then 0 else 1 + bitlen (n div 2))"
  by pat_completeness auto
termination
  by (relation "measure nat") auto

declare bitlen.simps [simp del]

text \<open>
  Rounding of the positive rational \<open>num / den\<close> to the nearest binary64 value, ties to
  even, with gradual underflow and overflow to infinity (IEEE 754 unbiased rounding,
  which \<open>ParseFloat\<close> documents). \<open>e0\<close> is the binary exponent of the quotient and \<open>q\<close>
  the exponent of the unit in the last place.
\<close>

definition round_f64 :: "bool \<Rightarrow> int \<Rightarrow> int \<Rightarrow> float64" where
  "round_f64 neg num den =
     (if num = 0 then Finite neg 0 0
      else
        let d = bitlen num - bitlen den;
            e0 = (if den * 2 ^ nat d \<le> num * 2 ^ nat (- d) then d else d - 1);
            q = max (e0 - 52) (- 1074);
            n' = num * 2 ^ nat (- q);
            d' = den * 2 ^ nat q;
            n = n' div d';
            r = n' mod d';
            n1 = (if d' < 2 * r \<or> (2 * r = d' \<and> odd n) then n + 1 else n);
            m = (if n1 = 2 ^ 53 then 2 ^ 52 else n1);
            e = (if n1 = 2 ^ 53 then q + 1 else q)
        in if m = 0 then Finite neg 0 0
           else if 971 < e then Infinity neg
           else Finite neg m e)"

text \<open>The value \<open>mant * base ^ ex\<close> as a float64.\<close>

definition scale_f64 :: "bool \<Rightarrow> int \<Rightarrow> int \<Rightarrow> int \<Rightarrow> float64" where
  "scale_f64 neg mant base ex =
     (if 0 \<le> ex then round_f64 neg (mant * base ^ nat ex) 1
      else round_f64 neg mant (base ^ nat (- ex)))"

fun commonPrefixLenIgnoreCase :: "string \<Rightarrow> string \<Rightarrow> nat" where
  "commonPrefixLenIgnoreCase [] p = 0"
| "commonPrefixLenIgnoreCase (c # cs) [] = 0"
| "commonPrefixLenIgnoreCase (c # cs) (p # ps) =
     (let c' = (if 65 \<le> (of_char c :: nat) \<and> (of_char c :: nat) \<le> 90
                then char_of ((of_char c :: nat) + 32) else c)
      in if c' \<noteq> p then 0 else Suc (commonPrefixLenIgnoreCase cs ps))"

definition special_inf :: "bool \<Rightarrow> nat \<Rightarrow> string \<Rightarrow> (float64 \<times> nat) option" where
  "special_inf neg nsign s =
     (let n0 = commonPrefixLenIgnoreCase s ''infinity'';
          n = (if 3 < n0 \<and> n0 < 8 then 3 else n0)
      in if n = 3 \<or> n = 8 then Some (Infinity neg, nsign + n) else None)"

text \<open>\<open>special\<close>: the value and the number of bytes read for an infinity or a NaN.\<close>

definition special :: "string \<Rightarrow> (float64 \<times> nat) option" where
  "special s =
     (case s of
        [] \<Rightarrow> None
      | c # cs \<Rightarrow>
          if c = CHR ''+'' \<or> c = CHR ''-'' then special_inf (c = CHR ''-'') 1 cs
          else if c = CHR ''i'' \<or> c = CHR ''I'' then special_inf False 0 s
          else if c = CHR ''n'' \<or> c = CHR ''N'' then
            (if commonPrefixLenIgnoreCase s ''nan'' = 3 then Some (NaN, 3) else None)
          else None)"

text \<open>
  The state of the mantissa loop of \<open>readFloat\<close>. Go keeps the first 19 digits (16 in
  base 16) and a flag for a non-zero digit dropped; the conversion uses them to round
  the exact value correctly, so the model keeps every digit.
\<close>

record rf_state =
  rf_mant :: int
  rf_nd :: int
  rf_dp :: int
  rf_sawdot :: bool
  rf_sawdigits :: bool
  rf_underscores :: bool

fun mant_loop :: "int \<Rightarrow> string \<Rightarrow> rf_state \<Rightarrow> rf_state \<times> string" where
  "mant_loop base [] st = (st, [])"
| "mant_loop base (c # cs) st =
     (if c = CHR ''_'' then mant_loop base cs (st\<lparr>rf_underscores := True\<rparr>)
      else if c = CHR ''.'' then
        (if rf_sawdot st then (st, c # cs)
         else mant_loop base cs (st\<lparr>rf_sawdot := True, rf_dp := rf_nd st\<rparr>))
      else if is_digit c then
        (if c = CHR ''0'' \<and> rf_nd st = 0
         then mant_loop base cs (st\<lparr>rf_sawdigits := True, rf_dp := rf_dp st - 1\<rparr>)
         else mant_loop base cs
                (st\<lparr>rf_sawdigits := True, rf_nd := rf_nd st + 1,
                    rf_mant := rf_mant st * base + digit_val c\<rparr>))
      else if base = 16 \<and> is_hex_letter c then
        mant_loop base cs
          (st\<lparr>rf_sawdigits := True, rf_nd := rf_nd st + 1,
              rf_mant := rf_mant st * 16 + (of_char (lower c) - 97 + 10)\<rparr>)
      else (st, c # cs))"

fun exp_loop :: "string \<Rightarrow> int \<Rightarrow> bool \<Rightarrow> int \<times> bool \<times> string" where
  "exp_loop [] e u = (e, u, [])"
| "exp_loop (c # cs) e u =
     (if c = CHR ''_'' then exp_loop cs e True
      else if is_digit c then exp_loop cs (if e < 10000 then e * 10 + digit_val c else e) u
      else (e, u, c # cs))"

text \<open>
  \<open>underscoreOK\<close>: an underscore must separate digits (a base prefix counts as a digit).
  \<open>saw\<close> is the last character class seen.
\<close>

fun underscore_loop :: "bool \<Rightarrow> char \<Rightarrow> string \<Rightarrow> bool" where
  "underscore_loop hex saw [] = (saw \<noteq> CHR ''_'')"
| "underscore_loop hex saw (c # cs) =
     (if is_digit c \<or> (hex \<and> is_hex_letter c) then underscore_loop hex (CHR ''0'') cs
      else if c = CHR ''_'' then (if saw \<noteq> CHR ''0'' then False else underscore_loop hex (CHR ''_'') cs)
      else if saw = CHR ''_'' then False
      else underscore_loop hex (CHR ''!'') cs)"

definition underscoreOK :: "string \<Rightarrow> bool" where
  "underscoreOK s0 =
     (let s = (if s0 \<noteq> [] \<and> (hd s0 = CHR ''-'' \<or> hd s0 = CHR ''+'') then tl s0 else s0)
      in if 2 \<le> length s \<and> s ! 0 = CHR ''0''
            \<and> (lower (s ! 1) = CHR ''b'' \<or> lower (s ! 1) = CHR ''o'' \<or> lower (s ! 1) = CHR ''x'')
         then underscore_loop (lower (s ! 1) = CHR ''x'') (CHR ''0'') (drop 2 s)
         else underscore_loop False (CHR ''^'') s)"

text \<open>
  The optional exponent of \<open>readFloat\<close>: \<open>None\<close> is the early return with \<open>ok = false\<close>,
  otherwise the shift of the decimal point, whether an underscore was seen, and the
  rest of the input.
\<close>

definition read_exponent :: "bool \<Rightarrow> string \<Rightarrow> (int \<times> bool \<times> string) option" where
  "read_exponent hex s =
     (if s \<noteq> [] \<and> lower (hd s) = (if hex then CHR ''p'' else CHR ''e'') then
        (let s1 = tl s in
         if s1 = [] then None
         else
           let esign = (if hd s1 = CHR ''-'' then - 1 else 1);
               s2 = (if hd s1 = CHR ''+'' \<or> hd s1 = CHR ''-'' then tl s1 else s1)
           in if s2 = [] \<or> \<not> is_digit (hd s2) then None
              else case exp_loop s2 0 False of (e, u, rest) \<Rightarrow> Some (e * esign, u, rest))
      else if hex then None
      else Some (0, False, s))"

text \<open>
  \<open>readFloat\<close>: \<open>None\<close> for \<open>ok = false\<close>; otherwise the sign, whether the number is
  hexadecimal, the mantissa, the exponent of the base (10, or 2 for a hexadecimal
  number) and the rest of the input.
\<close>

definition readFloat :: "string \<Rightarrow> (bool \<times> bool \<times> int \<times> int \<times> string) option" where
  "readFloat s =
     (if s = [] then None
      else
        let neg = (hd s = CHR ''-'');
            s1 = (if hd s = CHR ''+'' \<or> hd s = CHR ''-'' then tl s else s);
            hex = (2 < length s1 \<and> s1 ! 0 = CHR ''0'' \<and> lower (s1 ! 1) = CHR ''x'');
            s2 = (if hex then drop 2 s1 else s1)
        in case mant_loop (if hex then 16 else 10) s2
                  \<lparr>rf_mant = 0, rf_nd = 0, rf_dp = 0, rf_sawdot = False,
                   rf_sawdigits = False, rf_underscores = False\<rparr> of
             (st, s3) \<Rightarrow>
               if \<not> rf_sawdigits st then None
               else
                 let dp = (if rf_sawdot st then rf_dp st else rf_nd st) in
                 case read_exponent hex s3 of
                   None \<Rightarrow> None
                 | Some (e, u, rest) \<Rightarrow>
                     if (rf_underscores st \<or> u)
                        \<and> \<not> underscoreOK (take (length s - length rest) s) then None
                     else Some (neg, hex, rf_mant st,
                                (if hex then 4 * dp - 4 * rf_nd st + e else dp - rf_nd st + e),
                                rest))"

datatype num_error = ErrSyntax | ErrRange

definition ParseFloat :: "string \<Rightarrow> float64 \<times> num_error option" where
  "ParseFloat s =
     (case special s of
        Some (v, n) \<Rightarrow> if n \<noteq> length s then (f64_zero, Some ErrSyntax) else (v, None)
      | None \<Rightarrow>
          (case readFloat s of
             None \<Rightarrow> (f64_zero, Some ErrSyntax)
           | Some (neg, hex, mant, ex, rest) \<Rightarrow>
               if rest \<noteq> [] then (f64_zero, Some ErrSyntax)
               else
                 let v = scale_f64 neg mant (if hex then 2 else 10) ex
                 in (v, case v of Infinity _ \<Rightarrow> Some ErrRange | _ \<Rightarrow> None)))"

definition digit_char :: "int \<Rightarrow> char" where
  "digit_char d = char_of (48 + d)"

function digits_of :: "int \<Rightarrow> string" where
  "digits_of n = (if n < 10 then [digit_char n] else digits_of (n div 10) @ [digit_char (n mod 10)])"
  by pat_completeness auto
termination
  by (relation "measure nat") auto

declare digits_of.simps [simp del]

text \<open>
  \<open>fmt.Sprintf("%.4f", v)\<close>: the exact value of \<open>v\<close> rounded to four decimals, ties to
  even (\<open>strconv\<close> converts exactly); an infinity prints with its sign.
\<close>

fun Sprintf_4f :: "float64 \<Rightarrow> string" where
  "Sprintf_4f NaN = ''NaN''"
| "Sprintf_4f (Infinity neg) = (if neg then ''-Inf'' else ''+Inf'')"
| "Sprintf_4f (Finite neg m e) =
     (let n' = m * 10000 * 2 ^ nat e;
          d' = 2 ^ nat (- e);
          n = n' div d';
          r = n' mod d';
          n1 = (if d' < 2 * r \<or> (2 * r = d' \<and> odd n) then n + 1 else n)
      in (if neg then ''-'' else []) @ digits_of (n1 div 10000) @ ''.''
         @ [digit_char (n1 div 1000 mod 10), digit_char (n1 div 100 mod 10),
            digit_char (n1 div 10 mod 10), digit_char (n1 mod 10)])"

section \<open>Target-identity inference\<close>

text \<open>\<open>strings.HasPrefix\<close> and \<open>strings.Contains\<close> on byte strings.\<close>

fun has_prefix :: "string \<Rightarrow> string \<Rightarrow> bool" where
  "has_prefix s [] = True"
| "has_prefix [] (p # ps) = False"
| "has_prefix (c # cs) (p # ps) = (c = p \<and> has_prefix cs ps)"

fun strings_Contains :: "string \<Rightarrow> string \<Rightarrow> bool" where
  "strings_Contains [] sub = has_prefix [] sub"
| "strings_Contains (c # cs) sub = (has_prefix (c # cs) sub \<or> strings_Contains cs sub)"

definition inferURLFromFile :: "string \<Rightarrow> string" where
  "inferURLFromFile filename =
     (if strings_Contains filename ''green'' then ''green-cloud'' else ''t2no3'')"

section \<open>Chart series\<close>




section \<open>Properties of the target-identity inference\<close>

lemma has_prefix_iff: "has_prefix s p \<longleftrightarrow> (\<exists>t. s = p @ t)"
  by (induction s p rule: has_prefix.induct) auto

lemma strings_Contains_iff: "strings_Contains s sub \<longleftrightarrow> (\<exists>pre post. s = pre @ sub @ post)"
proof (induction s)
  case Nil
  then show ?case by (cases sub) auto
next
  case (Cons c cs)
  show ?case
  proof
    assume "strings_Contains (c # cs) sub"
    then consider "has_prefix (c # cs) sub" | "strings_Contains cs sub" by auto
    then show "\<exists>pre post. c # cs = pre @ sub @ post"
    proof cases
      case 1
      then obtain t where "c # cs = sub @ t" by (auto simp: has_prefix_iff)
      then have "c # cs = [] @ sub @ t" by simp
      then show ?thesis by blast
    next
      case 2
      then obtain pre post where "cs = pre @ sub @ post" using Cons.IH by blast
      then have "c # cs = (c # pre) @ sub @ post" by simp
      then show ?thesis by blast
    qed
  next
    assume "\<exists>pre post. c # cs = pre @ sub @ post"
    then obtain pre post where eq: "c # cs = pre @ sub @ post" by blast
    show "strings_Contains (c # cs) sub"
    proof (cases pre)
      case Nil
      with eq have "has_prefix (c # cs) sub" by (auto simp: has_prefix_iff)
      then show ?thesis by simp
    next
      case (Cons a pre')
      with eq have "cs = pre' @ sub @ post" by simp
      then have "strings_Contains cs sub" using Cons.IH by blast
      then show ?thesis by simp
    qed
  qed
qed

text \<open>
  C5. The inference is a closed two-way classification: a file name that contains
  the marker \<open>green\<close> anywhere is given the identity \<open>green-cloud\<close>, every other file
  name the fallback \<open>t2no3\<close>; and inferring again from the inferred identity gives the
  same identity.
\<close>

theorem inferURLFromFile_classification:
  "((\<exists>pre post. filename = pre @ ''green'' @ post) \<longrightarrow> inferURLFromFile filename = ''green-cloud'')
   \<and> ((\<nexists>pre post. filename = pre @ ''green'' @ post) \<longrightarrow> inferURLFromFile filename = ''t2no3'')
   \<and> inferURLFromFile (inferURLFromFile filename) = inferURLFromFile filename"
proof -
  have a: "inferURLFromFile ''green-cloud'' = ''green-cloud''"
    by (simp add: inferURLFromFile_def)
  have b: "inferURLFromFile ''t2no3'' = ''t2no3''"
    by (simp add: inferURLFromFile_def)
  show ?thesis
    using a b by (auto simp: inferURLFromFile_def strings_Contains_iff simp del: strings_Contains.simps)
qed

theorem inferURLFromFile_classification_witness:
  "inferURLFromFile ''hey_result_green_apis_nesgnas_uk_persons_1.txt'' = ''green-cloud''
   \<and> inferURLFromFile ''hey_result_apis_nesgnas_uk_persons_1.txt'' = ''t2no3''
   \<and> inferURLFromFile (inferURLFromFile ''hey_result_green_apis_nesgnas_uk_persons_1.txt'') = ''green-cloud''"
proof -
  have g: "\<exists>pre post. ''hey_result_green_apis_nesgnas_uk_persons_1.txt'' = pre @ ''green'' @ post"
    unfolding strings_Contains_iff [symmetric] by simp
  have n: "\<nexists>pre post. ''hey_result_apis_nesgnas_uk_persons_1.txt'' = pre @ ''green'' @ post"
    unfolding strings_Contains_iff [symmetric] by simp
  show ?thesis
    using inferURLFromFile_classification [of "''hey_result_green_apis_nesgnas_uk_persons_1.txt''"]
      inferURLFromFile_classification [of "''hey_result_apis_nesgnas_uk_persons_1.txt''"] g n
    by metis
qed

section \<open>Properties of the chart series\<close>




end
